theory Spec2Isabelle
  imports Complex_Main "HOL-Library.Multiset"
begin

section \<open>JavaScript numbers and values\<close>

text \<open>
  A JavaScript number is an IEEE double: a finite value, taken here as the real number it
  denotes, an infinity, or NaN. The sign of zero is not kept. Of the logger calls only the
  two that report how a trigger ended are modelled.
\<close>

datatype jsnum = Num real | PosInf | NegInf | NaN

text \<open>Comparisons of doubles are exact. \<open>x < t\<close> for a finite \<open>t\<close>: false on NaN.\<close>

fun js_lt :: "jsnum \<Rightarrow> real \<Rightarrow> bool" where
  "js_lt (Num x) t = (x < t)"
| "js_lt PosInf t = False"
| "js_lt NegInf t = True"
| "js_lt NaN t = False"

text \<open>Truthiness of a number (\<open>if (x)\<close>) and the test \<open>x > 0\<close>.\<close>

fun js_truthy :: "jsnum \<Rightarrow> bool" where
  "js_truthy (Num x) = (x \<noteq> 0)"
| "js_truthy PosInf = True"
| "js_truthy NegInf = True"
| "js_truthy NaN = False"

fun js_gt0 :: "jsnum \<Rightarrow> bool" where
  "js_gt0 (Num x) = (0 < x)"
| "js_gt0 PosInf = True"
| "js_gt0 NegInf = False"
| "js_gt0 NaN = False"

subsection \<open>The arithmetic of doubles\<close>

text \<open>
  The operators \<open>+\<close>, \<open>-\<close>, \<open>*\<close> and \<open>/\<close>, \<open>Math.sqrt\<close> and \<open>Math.pow\<close> round their results,
  overflow to an infinity and propagate NaN, and \<open>Math.pow\<close> is only approximated by an
  implementation. None of that is fixed here: the six operations are a parameter of the
  model, written \<open>fp\<close>, and whatever is proved holds for every choice of them, the
  runtime's among them.
\<close>

record arithmetic =
  f_add :: "jsnum \<Rightarrow> jsnum \<Rightarrow> jsnum"
  f_sub :: "jsnum \<Rightarrow> jsnum \<Rightarrow> jsnum"
  f_mul :: "jsnum \<Rightarrow> jsnum \<Rightarrow> jsnum"
  f_div :: "jsnum \<Rightarrow> jsnum \<Rightarrow> jsnum"
  f_sqrt :: "jsnum \<Rightarrow> jsnum"
  f_pow :: "jsnum \<Rightarrow> jsnum \<Rightarrow> jsnum"

text \<open>
  One choice, used for the examples whose outcome does not depend on the arithmetic: no
  rounding on finite operands, NaN on all others, and of the powers only the square.
\<close>

fun on_finite :: "(real \<Rightarrow> real \<Rightarrow> jsnum) \<Rightarrow> jsnum \<Rightarrow> jsnum \<Rightarrow> jsnum" where
  "on_finite f (Num a) (Num b) = f a b"
| "on_finite f x y = NaN"

definition unrounded_div :: "real \<Rightarrow> real \<Rightarrow> jsnum" where
  "unrounded_div a b =
     (if b = 0 then (if a = 0 then NaN else if 0 < a then PosInf else NegInf)
      else Num (a / b))"

fun unrounded_sqrt :: "jsnum \<Rightarrow> jsnum" where
  "unrounded_sqrt (Num a) = (if a < 0 then NaN else Num (sqrt a))"
| "unrounded_sqrt x = NaN"

definition unrounded :: arithmetic where
  "unrounded =
     \<lparr>f_add = on_finite (\<lambda>a b. Num (a + b)),
       f_sub = on_finite (\<lambda>a b. Num (a - b)),
       f_mul = on_finite (\<lambda>a b. Num (a * b)),
       f_div = on_finite unrounded_div,
       f_sqrt = unrounded_sqrt,
       f_pow = on_finite (\<lambda>a b. if b = 2 then Num (a * a) else NaN)\<rparr>"

text \<open>
  The doubles that decimal literals denote: the reliability weights 0.88, 0.9, 0.92 and 0.95
  of the collectors, the weight 0.8 of the examples, and the constants 0.005, 0.01, 0.02,
  0.1, 0.15 and 0.25 compared with the coefficient of variation.
\<close>

definition d0_8 :: real where "d0_8 = 3602879701896397 / 2 ^ 52"
definition d0_88 :: real where "d0_88 = 7926335344172073 / 2 ^ 53"
definition d0_9 :: real where "d0_9 = 8106479329266893 / 2 ^ 53"
definition d0_92 :: real where "d0_92 = 8286623314361713 / 2 ^ 53"
definition d0_95 :: real where "d0_95 = 4278419646001971 / 2 ^ 52"
definition d0_005 :: real where "d0_005 = 5764607523034235 / 2 ^ 60"
definition d0_01 :: real where "d0_01 = 5764607523034235 / 2 ^ 59"
definition d0_02 :: real where "d0_02 = 5764607523034235 / 2 ^ 58"
definition d0_1 :: real where "d0_1 = 3602879701896397 / 2 ^ 55"
definition d0_15 :: real where "d0_15 = 5404319552844595 / 2 ^ 55"
definition d0_25 :: real where "d0_25 = 1 / 2 ^ 2"

datatype js_error = TypeError

section \<open>Consolidation of observations\<close>

text \<open>One adapter's reported price with the reliability weight its collector declares.\<close>

record observation =
  source :: string
  price :: real
  reliability :: real

text \<open>The object \<open>verifyAndConsolidate\<close> returns (\<open>variance\<close> holds the coefficient of variation).\<close>

record consolidated =
  c_price :: jsnum
  primarySource :: string
  verified :: bool
  variance :: jsnum

text \<open>
  \<open>Array.prototype.sort\<close> with a comparator: the sort is stable (ECMAScript 2019, and the
  documented runtime is Node 16 or higher), so for a consistent comparator its result is that
  of a stable insertion sort. An element goes before the first one it does not compare
  greater than.
\<close>

fun insert_by :: "('a \<Rightarrow> 'a \<Rightarrow> real) \<Rightarrow> 'a \<Rightarrow> 'a list \<Rightarrow> 'a list" where
  "insert_by cmp x [] = [x]"
| "insert_by cmp x (y # ys) = (if cmp x y \<le> 0 then x # y # ys else y # insert_by cmp x ys)"

fun js_sort :: "('a \<Rightarrow> 'a \<Rightarrow> real) \<Rightarrow> 'a list \<Rightarrow> 'a list" where
  "js_sort cmp [] = []"
| "js_sort cmp (x # xs) = insert_by cmp x (js_sort cmp xs)"

text \<open>The comparator \<open>(a, b) => b.reliability - a.reliability\<close>.\<close>

definition by_reliability_desc :: "observation \<Rightarrow> observation \<Rightarrow> real" where
  "by_reliability_desc a b = reliability b - reliability a"

text \<open>The \<open>forEach\<close> loop accumulating \<open>totalWeight\<close> and \<open>weightedSum\<close>.\<close>

definition accumulate_weights :: "arithmetic \<Rightarrow> observation list \<Rightarrow> jsnum \<times> jsnum" where
  "accumulate_weights fp sources =
     foldl (\<lambda>(totalWeight, weightedSum) s.
              (f_add fp totalWeight (Num (reliability s)),
               f_add fp weightedSum (f_mul fp (Num (price s)) (Num (reliability s)))))
           (Num 0, Num 0) sources"

text \<open>
  \<open>verifyAndConsolidate(sources)\<close>. The six collectors carry the same body and differ in the
  constant compared with the coefficient of variation, which is the second argument here.
  The call sorts \<open>sources\<close> in place, so the array after the call is returned beside the
  result. \<open>reduce\<close> without an initial value throws a TypeError on an empty array.
\<close>

definition verifyAndConsolidate ::
  "arithmetic \<Rightarrow> real \<Rightarrow> observation list \<Rightarrow> js_error + (consolidated \<times> observation list)" where
  "verifyAndConsolidate fp threshold sources =
     (if length sources = 1 then
        Inr (\<lparr>c_price = Num (price (sources ! 0)), primarySource = source (sources ! 0),
              verified = False, variance = Num 0\<rparr>, sources)
      else
        let (totalWeight, weightedSum) = accumulate_weights fp sources;
            weightedAverage = f_div fp weightedSum totalWeight;
            prices = map (\<lambda>s. Num (price s)) sources
        in case prices of
             [] \<Rightarrow> Inl TypeError
           | p # ps \<Rightarrow>
               let mean = f_div fp (foldl (f_add fp) p ps) (Num (real (length prices)));
                   variance =
                     f_div fp
                       (foldl (\<lambda>acc price. f_add fp acc (f_pow fp (f_sub fp price mean) (Num 2)))
                              (Num 0) prices)
                       (Num (real (length prices)));
                   standardDeviation = f_sqrt fp variance;
                   coefficientOfVariation = f_div fp standardDeviation mean;
                   verified = js_lt coefficientOfVariation threshold;
                   sorted = js_sort by_reliability_desc sources;
                   primary = sorted ! 0
               in Inr (\<lparr>c_price = (if verified then weightedAverage else Num (price primary)),
                         primarySource = source primary,
                         verified = verified,
                         variance = coefficientOfVariation\<rparr>, sorted))"

text \<open>The constants of the collectors.\<close>

definition crypto_threshold :: real where "crypto_threshold = d0_02"
definition metals_threshold :: real where "metals_threshold = d0_01"
definition stock_threshold :: real where "stock_threshold = d0_005"
definition consumer_threshold :: real where "consumer_threshold = d0_15"
definition luxury_threshold :: real where "luxury_threshold = d0_25"
definition realestate_threshold :: real where "realestate_threshold = d0_1"

text \<open>
  The most reliable observation of \<open>x # xs\<close>: highest reliability, the earliest one in
  input order on ties.
\<close>

fun most_reliable :: "observation \<Rightarrow> observation list \<Rightarrow> observation" where
  "most_reliable x [] = x"
| "most_reliable x (y # ys) =
     (let m = most_reliable y ys in if reliability m \<le> reliability x then x else m)"

text \<open>The value the call returns, and the caller's array after the call.\<close>

definition consolidate ::
  "arithmetic \<Rightarrow> real \<Rightarrow> observation list \<Rightarrow> js_error + consolidated" where
  "consolidate fp threshold sources =
     map_sum id fst (verifyAndConsolidate fp threshold sources)"

definition sources_after ::
  "arithmetic \<Rightarrow> real \<Rightarrow> observation list \<Rightarrow> js_error + observation list" where
  "sources_after fp threshold sources =
     map_sum id snd (verifyAndConsolidate fp threshold sources)"

text \<open>Three observations with a tie for the highest reliability, and a pair in ascending
  order of reliability.\<close>

definition obs_P :: observation where
  "obs_P = \<lparr>source = ''P'', price = 100, reliability = d0_9\<rparr>"

definition obs_Q :: observation where
  "obs_Q = \<lparr>source = ''Q'', price = 104, reliability = d0_95\<rparr>"

definition obs_R :: observation where
  "obs_R = \<lparr>source = ''R'', price = 101, reliability = d0_95\<rparr>"

definition obs_lo :: observation where
  "obs_lo = \<lparr>source = ''A'', price = 100, reliability = d0_8\<rparr>"

definition obs_hi :: observation where
  "obs_hi = \<lparr>source = ''B'', price = 104, reliability = d0_9\<rparr>"

section \<open>The price agent's stores\<close>

type_synonym symbol = string

text \<open>
  An entry of \<open>updateHistory\<close>. Entries read back from the data file may lack \<open>source\<close> or
  \<open>verified\<close>, hence the options; timestamps are \<open>Date.now()\<close> readings in milliseconds.
\<close>

record history_point =
  h_price :: jsnum
  h_timestamp :: int
  h_source :: "string option"
  h_verified :: "bool option"

text \<open>An entry of \<open>dataStore\<close>.\<close>

record price_entry =
  currentPrice :: jsnum
  e_timestamp :: int
  e_source :: "string option"
  e_verified :: bool

text \<open>The mutable fields of \<open>UniversalPriceAgent\<close>.\<close>

record agent =
  dataStore :: "symbol \<rightharpoonup> price_entry"
  lastUpdate :: "symbol \<rightharpoonup> int"
  updateHistory :: "symbol \<rightharpoonup> history_point list"
  isUpdating :: bool

text \<open>\<open>this.updateHistory.get(symbol) || []\<close>.\<close>

definition history_of :: "agent \<Rightarrow> symbol \<Rightarrow> history_point list" where
  "history_of a symbol = (case updateHistory a symbol of None \<Rightarrow> [] | Some h \<Rightarrow> h)"

text \<open>
  \<open>updateItemData(symbol, price, source, verified)\<close>; the first argument is the reading of
  \<open>Date.now()\<close>. \<open>history.splice(0, k)\<close> removes the first \<open>k\<close> entries. The parameters
  \<open>price\<close>, \<open>source\<close> and \<open>verified\<close> are renamed, those names being record fields here.
\<close>

definition updateItemData ::
  "int \<Rightarrow> symbol \<Rightarrow> jsnum \<Rightarrow> string option \<Rightarrow> bool \<Rightarrow> agent \<Rightarrow> agent" where
  "updateItemData timestamp symbol newPrice newSource isVerified a =
     (let pushed = history_of a symbol
            @ [\<lparr>h_price = newPrice, h_timestamp = timestamp, h_source = newSource,
                 h_verified = Some isVerified\<rparr>];
          history = (if 1000 < length pushed then drop (length pushed - 1000) pushed
                     else pushed)
      in a\<lparr>dataStore := (dataStore a)(symbol \<mapsto>
                \<lparr>currentPrice = newPrice, e_timestamp = timestamp, e_source = newSource,
                  e_verified = isVerified\<rparr>),
            lastUpdate := (lastUpdate a)(symbol \<mapsto> timestamp),
            updateHistory := (updateHistory a)(symbol \<mapsto> history)\<rparr>)"

text \<open>\<open>saveData\<close>: the object written to the data file, \<open>history.slice(-1000)\<close> per symbol.\<close>

definition saveData :: "agent \<Rightarrow> (symbol \<rightharpoonup> history_point list)" where
  "saveData a = (\<lambda>symbol. map_option (\<lambda>history. drop (length history - 1000) history)
                               (updateHistory a symbol))"

text \<open>A run of appends to one symbol, each with its clock reading.\<close>

definition append_all ::
  "symbol \<Rightarrow> (int \<times> jsnum \<times> string option \<times> bool) list \<Rightarrow> agent \<Rightarrow> agent" where
  "append_all symbol pts a =
     foldl (\<lambda>a (timestamp, newPrice, newSource, isVerified).
              updateItemData timestamp symbol newPrice newSource isVerified a) a pts"

definition point_of :: "int \<times> jsnum \<times> string option \<times> bool \<Rightarrow> history_point" where
  "point_of = (\<lambda>(timestamp, newPrice, newSource, isVerified).
     \<lparr>h_price = newPrice, h_timestamp = timestamp, h_source = newSource,
       h_verified = Some isVerified\<rparr>)"

subsection \<open>The historical query\<close>

text \<open>The object the query returns for one point; \<open>point.verified || false\<close>.\<close>

record point_view =
  v_price :: jsnum
  v_timestamp :: int
  v_verified :: bool

definition view_of :: "history_point \<Rightarrow> point_view" where
  "view_of point = \<lparr>v_price = h_price point, v_timestamp = h_timestamp point,
                     v_verified = (case h_verified point of None \<Rightarrow> False | Some b \<Rightarrow> b)\<rparr>"

text \<open>The \<open>switch (period)\<close> of \<open>getHistoricalData\<close>.\<close>

definition cutoffTime :: "string \<Rightarrow> int \<Rightarrow> int" where
  "cutoffTime period now =
     (if period = ''1H'' then now - (60 * 60 * 1000)
      else if period = ''1D'' then now - (24 * 60 * 60 * 1000)
      else if period = ''1W'' then now - (7 * 24 * 60 * 60 * 1000)
      else if period = ''1M'' then now - (30 * 24 * 60 * 60 * 1000)
      else if period = ''3M'' then now - (90 * 24 * 60 * 60 * 1000)
      else if period = ''1Y'' then now - (365 * 24 * 60 * 60 * 1000)
      else now - (7 * 24 * 60 * 60 * 1000))"

text \<open>\<open>getHistoricalData(symbol, period)\<close>; the last argument is the reading of \<open>Date.now()\<close>.\<close>

definition getHistoricalData :: "agent \<Rightarrow> symbol \<Rightarrow> string \<Rightarrow> int \<Rightarrow> point_view list" where
  "getHistoricalData a symbol period now =
     (let history = history_of a symbol
      in if length history = 0 then []
         else map view_of
                (filter (\<lambda>point. cutoffTime period now \<le> h_timestamp point) history))"

text \<open>The length of a window in milliseconds, as the specification names the windows.\<close>

definition window_millis :: "string \<Rightarrow> int" where
  "window_millis window =
     (if window = ''1H'' then 3600000
      else if window = ''1D'' then 86400000
      else if window = ''1M'' then 2592000000
      else if window = ''3M'' then 7776000000
      else if window = ''1Y'' then 31536000000
      else 604800000)"

text \<open>An agent with nothing stored, and a history of four points around a one-hour boundary.\<close>

definition empty_agent :: agent where
  "empty_agent = \<lparr>dataStore = Map.empty, lastUpdate = Map.empty, updateHistory = Map.empty,
                   isUpdating = False\<rparr>"

definition boundary_history :: "history_point list" where
  "boundary_history =
     [\<lparr>h_price = Num 1, h_timestamp = 6399999, h_source = Some ''s'', h_verified = Some True\<rparr>,
      \<lparr>h_price = Num 2, h_timestamp = 6400000, h_source = None, h_verified = None\<rparr>,
      \<lparr>h_price = Num 3, h_timestamp = 8000000, h_source = Some ''s'', h_verified = Some False\<rparr>,
      \<lparr>h_price = Num 4, h_timestamp = 9000000, h_source = Some ''s'', h_verified = Some True\<rparr>]"

definition boundary_agent :: agent where
  "boundary_agent = empty_agent\<lparr>updateHistory := [''BTC'' \<mapsto> boundary_history]\<rparr>"

text \<open>A run of 1001 points for one symbol, the \<open>n\<close>-th stamped \<open>n\<close>.\<close>

definition ticks :: "(int \<times> jsnum \<times> string option \<times> bool) list" where
  "ticks = map (\<lambda>n. (int n, Num 1, Some ''feed'', True)) [0..<1001]"

section \<open>The update cycle\<close>

text \<open>
  The object a collector returns for one symbol. \<open>price\<close> and \<open>source\<close> are \<open>null\<close> in a
  failure result; \<open>error\<close>, \<open>sources\<close> and \<open>variance\<close> are present in some results only.
\<close>

record collection_result =
  r_symbol :: symbol
  r_success :: bool
  r_error :: "string option"
  r_price :: "jsnum option"
  r_source :: "string option"
  r_verified :: bool
  r_sources :: "nat option"
  r_variance :: "jsnum option"

text \<open>
  The body of \<open>results.forEach\<close> in \<open>updateAllPrices\<close>, on the agent and the two counters:
  \<open>result.success && result.price && result.price > 0\<close> guards the write, and a \<open>null\<close>
  price is falsy. The first argument is the clock reading \<open>updateItemData\<close> takes.
\<close>

fun apply_result ::
  "int \<Rightarrow> collection_result \<Rightarrow> agent \<times> nat \<times> nat \<Rightarrow> agent \<times> nat \<times> nat" where
  "apply_result now result (a, successCount, errorCount) =
     (case r_price result of
        None \<Rightarrow> (a, successCount, errorCount + 1)
      | Some p \<Rightarrow>
          if r_success result \<and> js_truthy p \<and> js_gt0 p
          then (updateItemData now (r_symbol result) p (r_source result) (r_verified result) a,
                successCount + 1, errorCount)
          else (a, successCount, errorCount + 1))"

text \<open>
  How \<open>await collector.collectData()\<close> ends: with a list of results, each paired with the
  clock reading at which it is applied, or with a fault, which the \<open>catch\<close> around the
  collector counts as one error.
\<close>

datatype outcome = Resolved "(int \<times> collection_result) list" | Rejected

fun settle_collector :: "outcome \<Rightarrow> agent \<times> nat \<times> nat \<Rightarrow> agent \<times> nat \<times> nat" where
  "settle_collector (Resolved results) st =
     foldl (\<lambda>st (now, result). apply_result now result st) st results"
| "settle_collector Rejected (a, successCount, errorCount) = (a, successCount, errorCount + 1)"

text \<open>
  The event loop interleaves the activations of \<open>updateAllPrices\<close> at their \<open>await\<close>s. An
  activation that has passed the guard, here a cycle, records who triggered it, the
  collectors whose promise has not settled yet, and its two counters.
\<close>

datatype trigger = Manual | Scheduled

record cycle =
  origin :: trigger
  pending :: "string list"
  successCount :: nat
  errorCount :: nat

record system =
  this :: agent
  cycles :: "cycle list"

text \<open>The keys of \<open>this.collectors\<close>.\<close>

definition collectors :: "string list" where
  "collectors = [''crypto'', ''stocks'', ''metals'', ''consumer'', ''luxury'', ''realestate'']"

text \<open>
  What a trigger or a finished cycle lets its caller and the log observe: an HTTP status, the
  warning of a skipped call, the completion line with the two counters.
\<close>

datatype signal = Http nat | Warn_skipping | Info_completed nat nat

text \<open>
  \<open>updateAllPrices\<close> up to \<open>await Promise.all\<close>: with the flag set it warns and returns, else
  it sets the flag and starts every collector.
\<close>

definition updateAllPrices_enter :: "trigger \<Rightarrow> system \<Rightarrow> system \<times> signal list" where
  "updateAllPrices_enter t s =
     (if isUpdating (this s) then (s, [Warn_skipping])
      else (s\<lparr>this := (this s)\<lparr>isUpdating := True\<rparr>,
               cycles := cycles s @ [\<lparr>origin = t, pending = collectors,
                                       successCount = 0, errorCount = 0\<rparr>]\<rparr>, []))"

text \<open>
  The handler of \<open>POST /api/update\<close> up to its \<open>await\<close>: status 429 with the flag set, else the
  call of \<open>updateAllPrices\<close>. Should that call return at once, the handler answers 200.
\<close>

definition post_update :: "system \<Rightarrow> system \<times> signal list" where
  "post_update s =
     (if isUpdating (this s) then (s, [Http 429])
      else (case updateAllPrices_enter Manual s of
              (s', []) \<Rightarrow> (s', [])
            | (s', w # ws) \<Rightarrow> (s', w # ws @ [Http 200])))"

text \<open>The continuation of one collector's promise in cycle \<open>i\<close>.\<close>

definition settle :: "nat \<Rightarrow> string \<Rightarrow> outcome \<Rightarrow> system \<Rightarrow> system" where
  "settle i category out s =
     (let c = cycles s ! i;
          (a, sc, ec) = settle_collector out (this s, successCount c, errorCount c)
      in s\<lparr>this := a,
            cycles := (cycles s)[i := c\<lparr>pending := removeAll category (pending c),
                                         successCount := sc, errorCount := ec\<rparr>]\<rparr>)"

text \<open>
  After \<open>Promise.all\<close>: the completion line, the \<open>finally\<close> block clearing the flag, and for a
  manual trigger the handler's answer.
\<close>

definition finish :: "nat \<Rightarrow> system \<Rightarrow> system \<times> signal list" where
  "finish i s =
     (let c = cycles s ! i
      in (s\<lparr>this := (this s)\<lparr>isUpdating := False\<rparr>,
             cycles := take i (cycles s) @ drop (Suc i) (cycles s)\<rparr>,
          Info_completed (successCount c) (errorCount c)
            # (if origin c = Manual then [Http 200] else [])))"

text \<open>
  One turn of the event loop. A collector settles only while its promise is pending, and a
  cycle passes \<open>Promise.all\<close> only when none of its promises is.
\<close>

datatype event = Trigger trigger | Settle nat string outcome | Finish nat

fun fire :: "event \<Rightarrow> system \<Rightarrow> (system \<times> signal list) option" where
  "fire (Trigger Manual) s = Some (post_update s)"
| "fire (Trigger Scheduled) s = Some (updateAllPrices_enter Scheduled s)"
| "fire (Settle i category out) s =
     (if i < length (cycles s) \<and> category \<in> set (pending (cycles s ! i))
      then Some (settle i category out s, []) else None)"
| "fire (Finish i) s =
     (if i < length (cycles s) \<and> pending (cycles s ! i) = [] then Some (finish i s)
      else None)"

fun run :: "event list \<Rightarrow> system \<Rightarrow> (system \<times> signal list) option" where
  "run [] s = Some (s, [])"
| "run (e # es) s =
     (case fire e s of
        None \<Rightarrow> None
      | Some (s', out) \<Rightarrow>
          (case run es s' of None \<Rightarrow> None | Some (s'', out') \<Rightarrow> Some (s'', out @ out')))"

text \<open>The agent as constructed, before any cycle: nothing in flight.\<close>

definition idle :: "agent \<Rightarrow> system" where
  "idle a = \<lparr>this = a\<lparr>isUpdating := False\<rparr>, cycles = []\<rparr>"




text \<open>Applying a list of results to the stores, as \<open>forEach\<close> does.\<close>

definition apply_results ::
  "(int \<times> collection_result) list \<Rightarrow> agent \<times> nat \<times> nat \<Rightarrow> agent \<times> nat \<times> nat" where
  "apply_results results st = foldl (\<lambda>st (now, result). apply_result now result st) st results"

text \<open>Every stored price is positive.\<close>

definition positive_prices :: "agent \<Rightarrow> bool" where
  "positive_prices a =
     ((\<forall>symbol entry. dataStore a symbol = Some entry \<longrightarrow> js_gt0 (currentPrice entry))
      \<and> (\<forall>symbol history. updateHistory a symbol = Some history \<longrightarrow>
            (\<forall>point \<in> set history. js_gt0 (h_price point))))"

text \<open>A result that reports success with the given price, and the start of a cycle in which
  the crypto collector reports success with price 0 and then with price 7.\<close>

definition reported :: "jsnum option \<Rightarrow> collection_result" where
  "reported p = \<lparr>r_symbol = ''BTC'', r_success = True, r_error = None, r_price = p,
                  r_source = Some ''CoinGecko'', r_verified = False, r_sources = Some 1,
                  r_variance = Some (Num 0)\<rparr>"

definition mixed_events :: "event list" where
  "mixed_events =
     [Trigger Scheduled,
      Settle 0 ''crypto'' (Resolved [(5, reported (Some (Num 0))), (6, reported (Some (Num 7)))])]"






text \<open>A system with a cycle in flight, and one whose cycle has no promise pending.\<close>

definition busy_system :: system where
  "busy_system = fst (updateAllPrices_enter Scheduled (idle empty_agent))"

definition draining_system :: system where
  "draining_system =
     \<lparr>this = empty_agent\<lparr>isUpdating := True\<rparr>,
       cycles = [\<lparr>origin = Scheduled, pending = [], successCount = 0, errorCount = 0\<rparr>]\<rparr>"

text \<open>At most one cycle is running, and the flag is set exactly while one is.\<close>

definition single_flight :: "system \<Rightarrow> bool" where
  "single_flight s = (length (cycles s) \<le> 1 \<and> (isUpdating (this s) = (cycles s \<noteq> [])))"

section \<open>Collectors\<close>

text \<open>
  What awaiting a source adapter yields: an exception, \<open>null\<close> or \<open>undefined\<close>, NaN, or a
  finite number. How an adapter obtains its value is not modelled.
\<close>

datatype adapter_out = Threw | Absent | NotANumber | Price real

text \<open>
  The block repeated for every source,
  \<open>try { const p = await adapter(); if (p) sources.push({ source, price: p, reliability }) }
  catch (error) { warn }\<close>: only a truthy value is pushed, and 0 and NaN are falsy.
\<close>

fun push_if_truthy ::
  "string \<Rightarrow> real \<Rightarrow> adapter_out \<Rightarrow> observation list \<Rightarrow> observation list" where
  "push_if_truthy name weight (Price p) sources =
     (if p \<noteq> 0 then sources @ [\<lparr>source = name, price = p, reliability = weight\<rparr>]
      else sources)"
| "push_if_truthy name weight Threw sources = sources"
| "push_if_truthy name weight Absent sources = sources"
| "push_if_truthy name weight NotANumber sources = sources"

text \<open>The two shapes of result object the collectors build, and \<open>error.message\<close>.\<close>

definition failure_result :: "symbol \<Rightarrow> string \<Rightarrow> collection_result" where
  "failure_result symbol msg =
     \<lparr>r_symbol = symbol, r_success = False, r_error = Some msg, r_price = None,
       r_source = None, r_verified = False, r_sources = None, r_variance = None\<rparr>"

definition success_result :: "symbol \<Rightarrow> consolidated \<Rightarrow> nat \<Rightarrow> collection_result" where
  "success_result symbol verifiedPrice n =
     \<lparr>r_symbol = symbol, r_success = True, r_error = None,
       r_price = Some (c_price verifiedPrice), r_source = Some (primarySource verifiedPrice),
       r_verified = verified verifiedPrice, r_sources = Some n,
       r_variance = Some (variance verifiedPrice)\<rparr>"

fun message :: "js_error \<Rightarrow> string" where
  "message TypeError = ''Reduce of empty array with no initial value''"

text \<open>
  The end of every \<open>collect...Price\<close>: the call of \<open>verifyAndConsolidate\<close> inside the outer
  \<open>try\<close>, whose \<open>catch\<close> turns an exception into a failure result. Beside the result stands
  the array the consolidation was called with; \<open>sources.length\<close> is read from the array as
  the call left it.
\<close>

definition consolidate_sources ::
  "arithmetic \<Rightarrow> real \<Rightarrow> symbol \<Rightarrow> observation list
     \<Rightarrow> collection_result \<times> observation list option" where
  "consolidate_sources fp threshold symbol sources =
     (case verifyAndConsolidate fp threshold sources of
        Inr (verifiedPrice, after) \<Rightarrow>
          (success_result symbol verifiedPrice (length after), Some sources)
      | Inl e \<Rightarrow> (failure_result symbol (message e), Some sources))"

subsection \<open>The crypto collector\<close>

text \<open>The outputs of its adapters for one symbol, and whether the CoinMarketCap key is set.\<close>

record crypto_feeds =
  coinGecko :: adapter_out
  binance :: adapter_out
  cmcKey :: bool
  coinMarketCap :: adapter_out

definition crypto_sources :: "crypto_feeds \<Rightarrow> observation list" where
  "crypto_sources f =
     (let sources = push_if_truthy ''CoinGecko'' d0_9 (coinGecko f) [];
          sources = push_if_truthy ''Binance'' d0_95 (binance f) sources
      in if cmcKey f then push_if_truthy ''CoinMarketCap'' d0_92 (coinMarketCap f) sources
         else sources)"

text \<open>
  \<open>collectCryptoPrice\<close>: the second component is the array \<open>verifyAndConsolidate\<close> was called
  with, \<open>None\<close> when it was not called.
\<close>

definition collectCryptoPrice ::
  "arithmetic \<Rightarrow> symbol \<Rightarrow> crypto_feeds \<Rightarrow> collection_result \<times> observation list option" where
  "collectCryptoPrice fp symbol f =
     (let sources = crypto_sources f
      in if length sources = 0 then (failure_result symbol ''No sources available'', None)
         else consolidate_sources fp crypto_threshold symbol sources)"

subsection \<open>The real-estate collector\<close>

record realestate_feeds =
  fredKey :: bool
  fred :: adapter_out
  zillow :: adapter_out
  redfin :: adapter_out
  nar :: adapter_out
  statCan :: adapter_out
  crea :: adapter_out
  nycOpenData :: adapter_out
  streetEasy :: adapter_out

definition collectUSHousingPrices :: "realestate_feeds \<Rightarrow> observation list" where
  "collectUSHousingPrices f =
     (let sources = (if fredKey f then push_if_truthy ''FRED'' d0_95 (fred f) [] else []);
          sources = push_if_truthy ''Zillow Research'' d0_9 (zillow f) sources;
          sources = push_if_truthy ''Redfin'' d0_88 (redfin f) sources
      in push_if_truthy ''NAR'' d0_92 (nar f) sources)"

definition collectCanadaHousingPrices :: "realestate_feeds \<Rightarrow> observation list" where
  "collectCanadaHousingPrices f =
     (let sources = push_if_truthy ''Statistics Canada'' d0_95 (statCan f) []
      in push_if_truthy ''CREA'' d0_9 (crea f) sources)"

definition collectNYCPricesPerSqft :: "realestate_feeds \<Rightarrow> observation list" where
  "collectNYCPricesPerSqft f =
     (let sources = push_if_truthy ''NYC Open Data'' d0_92 (nycOpenData f) []
      in push_if_truthy ''StreetEasy'' d0_88 (streetEasy f) sources)"

text \<open>The \<open>switch (symbol)\<close> and the filter \<open>s && s.price > 0\<close>.\<close>

definition realestate_sources :: "symbol \<Rightarrow> realestate_feeds \<Rightarrow> observation list" where
  "realestate_sources symbol f =
     (if symbol = ''HOUSE-US'' then collectUSHousingPrices f
      else if symbol = ''HOUSE-CA'' then collectCanadaHousingPrices f
      else if symbol = ''NYC-SQFT'' then collectNYCPricesPerSqft f
      else [])"

definition collectRealEstatePrice ::
  "arithmetic \<Rightarrow> symbol \<Rightarrow> realestate_feeds
     \<Rightarrow> collection_result \<times> observation list option" where
  "collectRealEstatePrice fp symbol f =
     (let sources = realestate_sources symbol f;
          validSources = filter (\<lambda>s. 0 < price s) sources
      in if length validSources = 0
         then (failure_result symbol ''No valid sources available'', None)
         else consolidate_sources fp realestate_threshold symbol validSources)"

text \<open>
  An adapter output with a price above 0, which is what the specification calls valid, one
  with a price below 0, and one that is truthy.
\<close>

fun positive :: "adapter_out \<Rightarrow> bool" where
  "positive (Price p) = (0 < p)"
| "positive Threw = False"
| "positive Absent = False"
| "positive NotANumber = False"

fun negative :: "adapter_out \<Rightarrow> bool" where
  "negative (Price p) = (p < 0)"
| "negative Threw = False"
| "negative Absent = False"
| "negative NotANumber = False"

fun truthy :: "adapter_out \<Rightarrow> bool" where
  "truthy (Price p) = (p \<noteq> 0)"
| "truthy Threw = False"
| "truthy Absent = False"
| "truthy NotANumber = False"

text \<open>Feeds that yield nothing, and feeds in which one adapter reports a negative price.\<close>

definition silent_crypto :: crypto_feeds where
  "silent_crypto = \<lparr>coinGecko = Absent, binance = Threw, cmcKey = True, coinMarketCap = Price 0\<rparr>"

definition silent_realestate :: realestate_feeds where
  "silent_realestate =
     \<lparr>fredKey = False, fred = Price 400000, zillow = Absent, redfin = Price (- 1), nar = Absent,
       statCan = Absent, crea = NotANumber, nycOpenData = Threw, streetEasy = Price 0\<rparr>"

definition negative_crypto :: crypto_feeds where
  "negative_crypto =
     \<lparr>coinGecko = Price (- 5), binance = Absent, cmcKey = False, coinMarketCap = Absent\<rparr>"

section \<open>Consolidation\<close>

subsection \<open>The comparator sort\<close>

lemma insert_by_insort:
  "insert_by by_reliability_desc x ys = insort_key (\<lambda>s. - reliability s) x ys"
  by (induction ys) (simp_all add: by_reliability_desc_def)

lemma js_sort_sort_key:
  "js_sort by_reliability_desc xs = sort_key (\<lambda>s. - reliability s) xs"
  by (induction xs) (simp_all add: insert_by_insort)

lemma js_sort_nonempty: "js_sort cmp (x # xs) \<noteq> []"
  by (cases "js_sort cmp xs") simp_all

lemma insert_by_hd:
  "ys \<noteq> [] \<Longrightarrow> hd (insert_by by_reliability_desc x ys)
     = (if reliability (hd ys) \<le> reliability x then x else hd ys)"
  by (cases ys) (simp_all add: by_reliability_desc_def)

lemma js_sort_hd: "hd (js_sort by_reliability_desc (x # xs)) = most_reliable x xs"
proof (induction xs arbitrary: x)
  case Nil
  show ?case by simp
next
  case (Cons y ys)
  have "js_sort by_reliability_desc (y # ys) \<noteq> []" by (rule js_sort_nonempty)
  then have "hd (js_sort by_reliability_desc (x # y # ys))
      = (if reliability (hd (js_sort by_reliability_desc (y # ys))) \<le> reliability x then x
         else hd (js_sort by_reliability_desc (y # ys)))"
    using insert_by_hd[of "js_sort by_reliability_desc (y # ys)" x] by simp
  then show ?case using Cons[of y] by (simp add: Let_def del: js_sort.simps)
qed

lemma js_sort_first: "js_sort by_reliability_desc (x # xs) ! 0 = most_reliable x xs"
  using js_sort_hd[of x xs] js_sort_nonempty[of by_reliability_desc x xs]
  by (simp add: hd_conv_nth)

subsection \<open>The call on a nonempty array\<close>

text \<open>
  Whatever the arithmetic, the call on two or more observations leaves the array sorted and
  names the source of its first element; the numbers of the result are those the arithmetic
  yields and are not determined here.
\<close>

lemma verifyAndConsolidate_single:
  "verifyAndConsolidate fp thr [s]
     = Inr (\<lparr>c_price = Num (price s), primarySource = source s, verified = False,
              variance = Num 0\<rparr>, [s])"
  by (simp add: verifyAndConsolidate_def)

lemma verifyAndConsolidate_many:
  assumes "2 \<le> length obs"
  shows "\<exists>r. verifyAndConsolidate fp thr obs = Inr (r, js_sort by_reliability_desc obs)
             \<and> primarySource r = source (js_sort by_reliability_desc obs ! 0)"
proof -
  from assms obtain s t rest where o: "obs = s # t # rest"
    by (cases obs; cases "tl obs") auto
  show ?thesis
    unfolding o verifyAndConsolidate_def
    by (simp add: Let_def split: prod.splits del: js_sort.simps)
qed

subsection \<open>The primary source\<close>


lemma most_reliable_index:
  "\<exists>i<length (x # xs). most_reliable x xs = (x # xs) ! i
      \<and> (\<forall>j<length (x # xs). reliability ((x # xs) ! j) \<le> reliability ((x # xs) ! i))
      \<and> (\<forall>j<i. reliability ((x # xs) ! j) < reliability ((x # xs) ! i))"
proof (induction xs arbitrary: x)
  case Nil
  show ?case by simp
next
  case (Cons y ys)
  obtain i where i: "i < length (y # ys)" "most_reliable y ys = (y # ys) ! i"
    and mx: "\<forall>j<length (y # ys). reliability ((y # ys) ! j) \<le> reliability ((y # ys) ! i)"
    and fst: "\<forall>j<i. reliability ((y # ys) ! j) < reliability ((y # ys) ! i)"
    using Cons[of y] by blast
  show ?case
  proof (cases "reliability (most_reliable y ys) \<le> reliability x")
    case True
    have "\<forall>j<length (x # y # ys). reliability ((x # y # ys) ! j) \<le> reliability x"
    proof (intro allI impI)
      fix j assume j: "j < length (x # y # ys)"
      show "reliability ((x # y # ys) ! j) \<le> reliability x"
      proof (cases j)
        case 0 then show ?thesis by simp
      next
        case (Suc k)
        with j have "k < length (y # ys)" by simp
        with mx have "reliability ((y # ys) ! k) \<le> reliability ((y # ys) ! i)" by blast
        with True i(2) Suc show ?thesis by simp
      qed
    qed
    with True show ?thesis by (intro exI[of _ 0]) simp
  next
    case False
    have a: "most_reliable x (y # ys) = (x # y # ys) ! Suc i" using False i(2) by simp
    have b: "\<forall>j<length (x # y # ys). reliability ((x # y # ys) ! j) \<le> reliability ((x # y # ys) ! Suc i)"
    proof (intro allI impI)
      fix j assume j: "j < length (x # y # ys)"
      show "reliability ((x # y # ys) ! j) \<le> reliability ((x # y # ys) ! Suc i)"
      proof (cases j)
        case 0 then show ?thesis using False i(2) by simp
      next
        case (Suc k)
        with j have "k < length (y # ys)" by simp
        with mx have "reliability ((y # ys) ! k) \<le> reliability ((y # ys) ! i)" by blast
        with Suc show ?thesis by simp
      qed
    qed
    have c: "\<forall>j<Suc i. reliability ((x # y # ys) ! j) < reliability ((x # y # ys) ! Suc i)"
    proof (intro allI impI)
      fix j assume j: "j < Suc i"
      show "reliability ((x # y # ys) ! j) < reliability ((x # y # ys) ! Suc i)"
      proof (cases j)
        case 0 then show ?thesis using False i(2) by simp
      next
        case (Suc k)
        with j have "k < i" by simp
        with fst have "reliability ((y # ys) ! k) < reliability ((y # ys) ! i)" by blast
        with Suc show ?thesis by simp
      qed
    qed
    from i(1) have "Suc i < length (x # y # ys)" by simp
    with a b c show ?thesis by blast
  qed
qed

text \<open>
  Claim C2. With two or more observations the primary source is the source of an observation
  of maximal reliability, the first such one in input order, whatever the threshold and the
  arithmetic, and hence whether or not the result is verified.
\<close>

theorem primary_source_most_reliable:
  assumes "2 \<le> length obs"
  shows "\<exists>r i. consolidate fp thr obs = Inr r \<and> i < length obs
           \<and> primarySource r = source (obs ! i)
           \<and> (\<forall>j<length obs. reliability (obs ! j) \<le> reliability (obs ! i))
           \<and> (\<forall>j<i. reliability (obs ! j) < reliability (obs ! i))"
proof -
  from assms have ne: "obs \<noteq> []" by auto
  then have o: "obs = hd obs # tl obs" by simp
  obtain r where r: "verifyAndConsolidate fp thr obs = Inr (r, js_sort by_reliability_desc obs)"
    and p: "primarySource r = source (js_sort by_reliability_desc obs ! 0)"
    using verifyAndConsolidate_many[OF assms, of fp thr] by blast
  have "js_sort by_reliability_desc obs ! 0 = most_reliable (hd obs) (tl obs)"
    using js_sort_first[of "hd obs" "tl obs"] o by simp
  with p have p': "primarySource r = source (most_reliable (hd obs) (tl obs))" by simp
  have c: "consolidate fp thr obs = Inr r" by (simp add: consolidate_def r)
  obtain i where "i < length (hd obs # tl obs)"
      "most_reliable (hd obs) (tl obs) = (hd obs # tl obs) ! i"
      "\<forall>j<length (hd obs # tl obs). reliability ((hd obs # tl obs) ! j) \<le> reliability ((hd obs # tl obs) ! i)"
      "\<forall>j<i. reliability ((hd obs # tl obs) ! j) < reliability ((hd obs # tl obs) ! i)"
    using most_reliable_index[of "hd obs" "tl obs"] by blast
  then have "i < length obs" "most_reliable (hd obs) (tl obs) = obs ! i"
      "\<forall>j<length obs. reliability (obs ! j) \<le> reliability (obs ! i)"
      "\<forall>j<i. reliability (obs ! j) < reliability (obs ! i)"
    using o by metis+
  with c p' show ?thesis by metis
qed


text \<open>Q and R tie for the highest reliability; Q comes first.\<close>

theorem primary_source_most_reliable_witness:
  "(2::nat) \<le> length [obs_P, obs_Q, obs_R]
   \<and> map_sum id primarySource (consolidate unrounded crypto_threshold [obs_P, obs_Q, obs_R])
       = Inr ''Q''
   \<and> map_sum id primarySource (consolidate unrounded stock_threshold [obs_P, obs_Q, obs_R])
       = Inr ''Q''"
proof -
  have l: "(2::nat) \<le> length [obs_P, obs_Q, obs_R]" by simp
  have "map_sum id primarySource (consolidate unrounded thr [obs_P, obs_Q, obs_R]) = Inr ''Q''"
    for thr
  proof -
    obtain r i where r: "consolidate unrounded thr [obs_P, obs_Q, obs_R] = Inr r"
      and i: "i < length [obs_P, obs_Q, obs_R]"
      and p: "primarySource r = source ([obs_P, obs_Q, obs_R] ! i)"
      and mx: "\<forall>j<length [obs_P, obs_Q, obs_R]. reliability ([obs_P, obs_Q, obs_R] ! j) \<le> reliability ([obs_P, obs_Q, obs_R] ! i)"
      and fs: "\<forall>j<i. reliability ([obs_P, obs_Q, obs_R] ! j) < reliability ([obs_P, obs_Q, obs_R] ! i)"
      using primary_source_most_reliable[OF l, of unrounded thr] by blast
    from i have "i = 0 \<or> i = 1 \<or> i = 2" by auto
    moreover have "i \<noteq> 0"
    proof
      assume "i = 0"
      with mx[rule_format, of 1] show False
        by (simp add: obs_P_def obs_Q_def d0_9_def d0_95_def)
    qed
    moreover have "i \<noteq> 2"
    proof
      assume "i = 2"
      with fs[rule_format, of 1] show False by (simp add: obs_R_def obs_Q_def)
    qed
    ultimately have "i = 1" by blast
    with p r show ?thesis by (simp add: obs_Q_def)
  qed
  with l show ?thesis by blast
qed


subsection \<open>The array after the call\<close>



lemma sources_after_eq:
  "obs \<noteq> [] \<Longrightarrow> sources_after fp thr obs = Inr (sort_key (\<lambda>s. - reliability s) obs)"
proof (cases "length obs = 1")
  case True
  then obtain s where "obs = [s]" by (cases obs) auto
  then show ?thesis by (simp add: sources_after_def verifyAndConsolidate_single)
next
  case False
  assume "obs \<noteq> []"
  with False have "2 \<le> length obs" by (cases obs; cases "tl obs") auto
  from verifyAndConsolidate_many[OF this, of fp thr] show ?thesis
    by (auto simp: sources_after_def js_sort_sort_key)
qed

text \<open>
  Claim C8 as stated fails: the call sorts the caller's array in place, so an input in
  ascending order of reliability comes back reversed.
\<close>

theorem input_list_reordered_counterexample:
  "sources_after unrounded crypto_threshold [obs_lo, obs_hi] = Inr [obs_hi, obs_lo]
   \<and> sources_after unrounded crypto_threshold [obs_lo, obs_hi] \<noteq> Inr [obs_lo, obs_hi]"
  by (simp add: sources_after_def verifyAndConsolidate_def Let_def by_reliability_desc_def
        obs_lo_def obs_hi_def d0_8_def d0_9_def split: prod.splits)

text \<open>
  Claim C8, amended. The only effect of the call on its input is a reordering: afterwards
  the array holds the same observations, in descending order of reliability, observations of
  equal reliability in their input order; an array already in descending order (a single
  observation in particular) is unchanged. This holds whatever the arithmetic.
\<close>

theorem sources_after_sorted_permutation:
  assumes "obs \<noteq> []"
  shows "\<exists>arr. sources_after fp thr obs = Inr arr
           \<and> mset arr = mset obs
           \<and> sorted_wrt (\<lambda>a b. reliability b \<le> reliability a) arr
           \<and> (\<forall>k. filter (\<lambda>s. reliability s = k) arr = filter (\<lambda>s. reliability s = k) obs)
           \<and> (sorted_wrt (\<lambda>a b. reliability b \<le> reliability a) obs \<longrightarrow> arr = obs)"
proof -
  let ?f = "\<lambda>s. - reliability s"
  have srt: "sorted_wrt (\<lambda>a b. reliability b \<le> reliability a) xs = sorted (map ?f xs)" for xs
    by (simp add: sorted_map)
  have st: "filter (\<lambda>s. reliability s = k) (sort_key ?f obs) = filter (\<lambda>s. reliability s = k) obs" for k
    using sort_key_stable[of ?f "- k" obs] by simp
  show ?thesis
    using sources_after_eq[OF assms, of fp thr] st
    by (auto simp: srt sort_key_id_if_sorted)
qed

theorem sources_after_sorted_permutation_witness:
  "[obs_lo, obs_hi] \<noteq> []
   \<and> sources_after unrounded crypto_threshold [obs_lo, obs_hi] = Inr [obs_hi, obs_lo]
   \<and> sources_after unrounded crypto_threshold [obs_hi, obs_lo] = Inr [obs_hi, obs_lo]"
proof -
  have ne: "[obs_lo, obs_hi] \<noteq> []" "[obs_hi, obs_lo] \<noteq> []" by simp_all
  obtain arr where a: "sources_after unrounded crypto_threshold [obs_lo, obs_hi] = Inr arr"
    and m: "mset arr = mset [obs_lo, obs_hi]"
    and s: "sorted_wrt (\<lambda>a b. reliability b \<le> reliability a) arr"
    using sources_after_sorted_permutation[OF ne(1), of unrounded crypto_threshold] by blast
  from m have "length arr = 2" using mset_eq_length by fastforce
  then obtain x y where xy: "arr = [x, y]"
    by (metis (no_types, opaque_lifting) One_nat_def Suc_1 length_0_conv length_Suc_conv)
  from m xy have "{x, y} = {obs_lo, obs_hi}" using mset_eq_setD by fastforce
  then have "(x = obs_lo \<and> y = obs_hi) \<or> (x = obs_hi \<and> y = obs_lo)"
    by (auto simp: doubleton_eq_iff)
  moreover have "\<not> (x = obs_lo \<and> y = obs_hi)"
    using s xy by (auto simp: obs_lo_def obs_hi_def d0_8_def d0_9_def)
  ultimately have 1: "arr = [obs_hi, obs_lo]" using xy by blast
  obtain arr2 where b: "sources_after unrounded crypto_threshold [obs_hi, obs_lo] = Inr arr2"
    and i: "sorted_wrt (\<lambda>a b. reliability b \<le> reliability a) [obs_hi, obs_lo] \<longrightarrow> arr2 = [obs_hi, obs_lo]"
    using sources_after_sorted_permutation[OF ne(2), of unrounded crypto_threshold] by blast
  have "sorted_wrt (\<lambda>a b. reliability b \<le> reliability a) [obs_hi, obs_lo]"
    by (simp add: obs_lo_def obs_hi_def d0_8_def d0_9_def)
  with i have 2: "arr2 = [obs_hi, obs_lo]" by blast
  from a b 1 2 ne show ?thesis by simp
qed


section \<open>The history store\<close>


lemma history_after_update:
  "history_of (updateItemData t sy p src v a) sy
     = (let pushed = history_of a sy @ [point_of (t, p, src, v)]
        in drop (length pushed - 1000) pushed)"
  by (simp add: updateItemData_def history_of_def Let_def point_of_def)

lemma history_other_symbol:
  "sy' \<noteq> sy \<Longrightarrow> updateHistory (updateItemData t sy p src v a) sy' = updateHistory a sy'"
  by (simp add: updateItemData_def Let_def)

lemma keep_last_append:
  "drop (length (drop (length xs - n) xs @ ys) - n) (drop (length xs - n) xs @ ys)
     = drop (length (xs @ ys) - n) (xs @ ys)"
  by (cases "length xs \<le> n") (simp_all add: drop_append add.commute)

lemma history_length_after_update:
  "length (history_of (updateItemData t sy p src v a) sy) \<le> 1000"
  by (simp add: history_after_update Let_def)

lemma history_append_all:
  "length (history_of a sy) \<le> 1000 \<Longrightarrow>
   history_of (append_all sy pts a) sy
     = drop (length (history_of a sy @ map point_of pts) - 1000)
            (history_of a sy @ map point_of pts)"
proof (induction pts arbitrary: a)
  case Nil
  then show ?case by (simp add: append_all_def)
next
  case (Cons pt pts)
  obtain t p src v where pt: "pt = (t, p, src, v)" by (cases pt) auto
  have "append_all sy (pt # pts) a = append_all sy pts (updateItemData t sy p src v a)"
    by (simp add: append_all_def pt)
  then show ?case
    using Cons.IH[of "updateItemData t sy p src v a", OF history_length_after_update]
      keep_last_append[of "history_of a sy @ [point_of pt]" 1000 "map point_of pts"]
    by (simp add: history_after_update Let_def pt)
qed

lemma saveData_length:
  "saveData a sy = Some h \<Longrightarrow> length h \<le> 1000"
  by (auto simp: saveData_def)

text \<open>
  Claim C4. An append puts the new point at the end and keeps the last 1000 points, so the
  symbol's history never exceeds 1000 points afterwards, whatever it held before; other
  symbols are untouched; a run of appends keeps the bound, and 1001 appends to a fresh symbol
  leave exactly the 1000 newest points, only the oldest being evicted. What \<open>saveData\<close>
  writes is capped the same way.
\<close>

theorem history_capped:
  "history_of (updateItemData t sy p src v a) sy
       = drop (length (history_of a sy @ [point_of (t, p, src, v)]) - 1000)
              (history_of a sy @ [point_of (t, p, src, v)])
   \<and> length (history_of (updateItemData t sy p src v a) sy) \<le> 1000
   \<and> (\<forall>other. other \<noteq> sy \<longrightarrow>
          updateHistory (updateItemData t sy p src v a) other = updateHistory a other)
   \<and> (length (history_of a sy) \<le> 1000 \<longrightarrow>
          length (history_of (append_all sy pts a) sy) \<le> 1000)
   \<and> (history_of a sy = [] \<and> length pts = 1001 \<longrightarrow>
          history_of (append_all sy pts a) sy = tl (map point_of pts)
          \<and> length (history_of (append_all sy pts a) sy) = 1000)
   \<and> (\<forall>h. saveData a sy = Some h \<longrightarrow> length h \<le> 1000)"
proof -
  have 1: "history_of (updateItemData t sy p src v a) sy
       = drop (length (history_of a sy @ [point_of (t, p, src, v)]) - 1000)
              (history_of a sy @ [point_of (t, p, src, v)])"
    using history_after_update[of t sy p src v a] by (simp add: Let_def)
  have 4: "length (history_of (append_all sy pts a) sy) \<le> 1000"
    if "length (history_of a sy) \<le> 1000"
    using history_append_all[OF that, of pts] by simp
  have 5: "history_of (append_all sy pts a) sy = tl (map point_of pts)
          \<and> length (history_of (append_all sy pts a) sy) = 1000"
    if "history_of a sy = []" "length pts = 1001"
    using history_append_all[of a sy pts] that by (simp add: drop_Suc)
  show ?thesis
    using 1 history_length_after_update[of t sy p src v a] history_other_symbol[of _ sy t p src v a]
      4 5 saveData_length[of a sy]
    by blast
qed



text \<open>1001 appends to an empty store: the point stamped 0 is gone, 1 to 1000 remain.\<close>

theorem history_capped_witness:
  "history_of empty_agent ''BTC'' = [] \<and> length ticks = 1001
   \<and> length (history_of (append_all ''BTC'' ticks empty_agent) ''BTC'') = 1000
   \<and> history_of (append_all ''BTC'' ticks empty_agent) ''BTC'' = tl (map point_of ticks)
   \<and> h_timestamp (hd (history_of (append_all ''BTC'' ticks empty_agent) ''BTC'')) = 1
   \<and> h_timestamp (last (history_of (append_all ''BTC'' ticks empty_agent) ''BTC'')) = 1000
   \<and> ''ETH'' \<noteq> ''BTC''
   \<and> updateHistory (updateItemData 7 ''BTC'' (Num 4) None False boundary_agent) ''ETH''
       = updateHistory boundary_agent ''ETH''
   \<and> length (history_of boundary_agent ''BTC'') \<le> 1000
   \<and> length (history_of (append_all ''BTC'' ticks boundary_agent) ''BTC'') \<le> 1000
   \<and> saveData boundary_agent ''BTC'' = Some boundary_history
   \<and> length boundary_history \<le> 1000"
proof -
  have e: "history_of empty_agent ''BTC'' = []" by (simp add: history_of_def empty_agent_def)
  have l: "length ticks = 1001" by (simp add: ticks_def)
  have h: "history_of (append_all ''BTC'' ticks empty_agent) ''BTC'' = tl (map point_of ticks)"
    and n: "length (history_of (append_all ''BTC'' ticks empty_agent) ''BTC'') = 1000"
    using history_capped[of 0 "''BTC''" NaN None False empty_agent ticks] e l by blast+
  have t: "tl (map point_of ticks) = map (\<lambda>n. point_of (int n, Num 1, Some ''feed'', True)) [1..<1001]"
    by (simp add: ticks_def upt_conv_Cons[of 0 1001] comp_def)
  have f: "h_timestamp (hd (tl (map point_of ticks))) = 1"
    unfolding t by (simp add: hd_map point_of_def)
  have g: "h_timestamp (last (tl (map point_of ticks))) = 1000"
    unfolding t by (simp add: last_map point_of_def)
  note other = history_capped[of 7 "''BTC''" "Num 4" None False boundary_agent ticks]
  have d: "''ETH'' \<noteq> ''BTC''" by simp
  have o: "updateHistory (updateItemData 7 ''BTC'' (Num 4) None False boundary_agent) ''ETH''
       = updateHistory boundary_agent ''ETH''"
    using other[THEN conjunct2, THEN conjunct2, THEN conjunct1, rule_format, OF d] .
  have c: "length (history_of boundary_agent ''BTC'') \<le> 1000"
    by (simp add: history_of_def boundary_agent_def boundary_history_def)
  have r: "length (history_of (append_all ''BTC'' ticks boundary_agent) ''BTC'') \<le> 1000"
    using other[THEN conjunct2, THEN conjunct2, THEN conjunct2, THEN conjunct1, rule_format, OF c] .
  have sv: "saveData boundary_agent ''BTC'' = Some boundary_history"
    by (simp add: saveData_def boundary_agent_def boundary_history_def)
  have sl: "length boundary_history \<le> 1000"
    using other[THEN conjunct2, THEN conjunct2, THEN conjunct2, THEN conjunct2, THEN conjunct2,
        rule_format, OF sv] .
  from e l h n f g d o c r sv sl show ?thesis by simp
qed

text \<open>
  Claim C5. The historical query returns, in stored order, exactly the points whose
  timestamp is at least the current time minus the window, each reduced to its price, its
  timestamp and its verified flag, a missing flag counting as false; a symbol without
  history gives the empty list, and a window other than the six named ones counts as one
  week.
\<close>

theorem historical_query_window:
  "getHistoricalData a sy period now
       = map (\<lambda>point. \<lparr>v_price = h_price point, v_timestamp = h_timestamp point,
                         v_verified = (h_verified point = Some True)\<rparr>)
             (filter (\<lambda>point. now - window_millis period \<le> h_timestamp point)
                     (case updateHistory a sy of None \<Rightarrow> [] | Some history \<Rightarrow> history))
   \<and> (period \<notin> {''1H'', ''1D'', ''1W'', ''1M'', ''3M'', ''1Y''} \<longrightarrow>
          window_millis period = window_millis ''1W'')"
proof -
  have v: "view_of = (\<lambda>point. \<lparr>v_price = h_price point, v_timestamp = h_timestamp point,
                                 v_verified = (h_verified point = Some True)\<rparr>)"
    by (rule ext) (simp add: view_of_def split: option.splits)
  show ?thesis
    by (simp add: getHistoricalData_def cutoffTime_def window_millis_def history_of_def Let_def v)
qed

text \<open>
  With the clock at 10000000 the one-hour boundary is 6400000: the point stamped 6399999 is
  left out, the one stamped 6400000 is returned, and the flags come back as stored.
\<close>

theorem historical_query_window_witness:
  "getHistoricalData boundary_agent ''BTC'' ''1H'' 10000000
       = [\<lparr>v_price = Num 2, v_timestamp = 6400000, v_verified = False\<rparr>,
          \<lparr>v_price = Num 3, v_timestamp = 8000000, v_verified = False\<rparr>,
          \<lparr>v_price = Num 4, v_timestamp = 9000000, v_verified = True\<rparr>]
   \<and> ''2W'' \<notin> {''1H'', ''1D'', ''1W'', ''1M'', ''3M'', ''1Y''}
   \<and> getHistoricalData boundary_agent ''BTC'' ''2W'' 10000000
       = getHistoricalData boundary_agent ''BTC'' ''1W'' 10000000
   \<and> getHistoricalData boundary_agent ''BTC'' ''1W'' 10000000
       = [\<lparr>v_price = Num 1, v_timestamp = 6399999, v_verified = True\<rparr>,
          \<lparr>v_price = Num 2, v_timestamp = 6400000, v_verified = False\<rparr>,
          \<lparr>v_price = Num 3, v_timestamp = 8000000, v_verified = False\<rparr>,
          \<lparr>v_price = Num 4, v_timestamp = 9000000, v_verified = True\<rparr>]
   \<and> getHistoricalData boundary_agent ''ETH'' ''1H'' 10000000 = []"
proof -
  have h: "updateHistory boundary_agent ''BTC'' = Some boundary_history"
    "updateHistory boundary_agent ''ETH'' = None"
    by (simp_all add: boundary_agent_def empty_agent_def)
  have w: "window_millis ''1H'' = 3600000" "window_millis ''1W'' = 604800000"
    by (simp_all add: window_millis_def)
  have 1: "getHistoricalData boundary_agent ''BTC'' ''1H'' 10000000
       = [\<lparr>v_price = Num 2, v_timestamp = 6400000, v_verified = False\<rparr>,
          \<lparr>v_price = Num 3, v_timestamp = 8000000, v_verified = False\<rparr>,
          \<lparr>v_price = Num 4, v_timestamp = 9000000, v_verified = True\<rparr>]"
    using historical_query_window[of boundary_agent "''BTC''" "''1H''" 10000000]
    by (simp add: h w boundary_history_def)
  have n: "''2W'' \<notin> {''1H'', ''1D'', ''1W'', ''1M'', ''3M'', ''1Y''}" by simp
  have 2: "getHistoricalData boundary_agent ''BTC'' ''2W'' 10000000
       = getHistoricalData boundary_agent ''BTC'' ''1W'' 10000000"
    using historical_query_window[of boundary_agent "''BTC''" "''2W''" 10000000]
      historical_query_window[of boundary_agent "''BTC''" "''1W''" 10000000] n
    by simp
  have 3: "getHistoricalData boundary_agent ''BTC'' ''1W'' 10000000
       = [\<lparr>v_price = Num 1, v_timestamp = 6399999, v_verified = True\<rparr>,
          \<lparr>v_price = Num 2, v_timestamp = 6400000, v_verified = False\<rparr>,
          \<lparr>v_price = Num 3, v_timestamp = 8000000, v_verified = False\<rparr>,
          \<lparr>v_price = Num 4, v_timestamp = 9000000, v_verified = True\<rparr>]"
    using historical_query_window[of boundary_agent "''BTC''" "''1W''" 10000000]
    by (simp add: h w boundary_history_def)
  have 4: "getHistoricalData boundary_agent ''ETH'' ''1H'' 10000000 = []"
    using historical_query_window[of boundary_agent "''ETH''" "''1H''" 10000000]
    by (simp add: h)
  from 1 n 2 3 4 show ?thesis by blast
qed


section \<open>Applying collection results\<close>


lemma js_gt0_truthy: "js_gt0 p \<Longrightarrow> js_truthy p"
  by (cases p) simp_all

lemma apply_result_refused:
  "\<not> (r_success r \<and> (\<exists>p. r_price r = Some p \<and> js_gt0 p)) \<Longrightarrow>
     apply_result now r (a, sc, ec) = (a, sc, ec + 1)"
  by (auto split: option.splits)

lemma apply_result_accepted:
  "r_success r \<Longrightarrow> r_price r = Some p \<Longrightarrow> js_gt0 p \<Longrightarrow>
     apply_result now r (a, sc, ec)
       = (updateItemData now (r_symbol r) p (r_source r) (r_verified r) a, sc + 1, ec)"
  by (simp add: js_gt0_truthy)

lemma positive_prices_update:
  assumes "js_gt0 p" "positive_prices a"
  shows "positive_prices (updateItemData t sy p src v a)"
proof -
  let ?a' = "updateItemData t sy p src v a"
  have old: "js_gt0 (h_price point)" if "point \<in> set (history_of a sy)" for point
  proof -
    from that obtain h where h: "updateHistory a sy = Some h"
      by (cases "updateHistory a sy") (auto simp: history_of_def)
    with that have "point \<in> set h" by (simp add: history_of_def)
    with h assms(2) show ?thesis unfolding positive_prices_def by blast
  qed
  have new: "js_gt0 (h_price point)" if "point \<in> set (history_of ?a' sy)" for point
  proof -
    from that have "point \<in> set (history_of a sy @ [point_of (t, p, src, v)])"
      by (auto simp: history_after_update Let_def dest: in_set_dropD)
    then show ?thesis using old assms(1) by (auto simp: point_of_def)
  qed
  have ds: "dataStore ?a' s = (if s = sy
              then Some \<lparr>currentPrice = p, e_timestamp = t, e_source = src, e_verified = v\<rparr>
              else dataStore a s)" for s
    by (simp add: updateItemData_def Let_def)
  have uh: "updateHistory ?a' s = (if s = sy then Some (history_of ?a' sy)
              else updateHistory a s)" for s
    by (simp add: updateItemData_def Let_def history_of_def)
  have 1: "js_gt0 (currentPrice entry)" if "dataStore ?a' s = Some entry" for s entry
    using that assms unfolding ds positive_prices_def by (auto split: if_splits)
  have 2: "js_gt0 (h_price point)" if "updateHistory ?a' s = Some h" "point \<in> set h" for s h point
  proof (cases "s = sy")
    case True
    with that uh[of s] have "h = history_of ?a' sy" by simp
    with that(2) new show ?thesis by blast
  next
    case False
    with that uh[of s] have "updateHistory a s = Some h" by simp
    with that(2) assms(2) show ?thesis unfolding positive_prices_def by blast
  qed
  show ?thesis unfolding positive_prices_def using 1 2 by blast
qed

lemma positive_prices_isUpdating [simp]:
  "positive_prices (a\<lparr>isUpdating := b\<rparr>) = positive_prices a"
  by (simp add: positive_prices_def)

lemma positive_prices_apply_result:
  "positive_prices a \<Longrightarrow> positive_prices (fst (apply_result now r (a, sc, ec)))"
  by (auto simp: positive_prices_update split: option.splits)

lemma positive_prices_apply_results:
  "positive_prices (fst st) \<Longrightarrow> positive_prices (fst (apply_results rs st))"
proof (induction rs arbitrary: st)
  case Nil
  then show ?case by (simp add: apply_results_def)
next
  case (Cons x rs)
  obtain now r where x: "x = (now, r)" by (cases x)
  obtain a sc ec where st: "st = (a, sc, ec)" by (cases st)
  have "apply_results (x # rs) st = apply_results rs (apply_result now r (a, sc, ec))"
    by (simp add: apply_results_def x st)
  moreover have "positive_prices (fst (apply_result now r (a, sc, ec)))"
    using Cons.prems st by (simp add: positive_prices_apply_result del: apply_result.simps)
  ultimately show ?case using Cons.IH by simp
qed

lemma settle_collector_results:
  "settle_collector (Resolved rs) st = apply_results rs st"
  by (simp add: apply_results_def)

lemma positive_prices_settle_collector:
  "positive_prices (fst st) \<Longrightarrow> positive_prices (fst (settle_collector out st))"
proof (cases out)
  case (Resolved rs)
  assume "positive_prices (fst st)"
  then show ?thesis using Resolved by (simp add: settle_collector_results positive_prices_apply_results del: settle_collector.simps)
next
  case Rejected
  assume "positive_prices (fst st)"
  then show ?thesis using Rejected by (cases st) simp
qed

lemma this_settle:
  "this (settle i c out s)
     = fst (settle_collector out (this s, successCount (cycles s ! i), errorCount (cycles s ! i)))"
  by (simp add: settle_def Let_def split: prod.splits)

lemma positive_prices_fire:
  assumes "fire e s = Some (s', out)" "positive_prices (this s)"
  shows "positive_prices (this s')"
proof (cases e)
  case (Trigger t)
  then show ?thesis using assms
    by (cases t) (auto simp: post_update_def updateAllPrices_enter_def split: if_splits)
next
  case (Settle i c out)
  then have "s' = settle i c out s" using assms(1) by (auto split: if_splits)
  then show ?thesis using assms(2) positive_prices_settle_collector[of "(this s, successCount (cycles s ! i), errorCount (cycles s ! i))" out]
    by (simp add: this_settle)
next
  case (Finish i)
  then show ?thesis using assms by (auto simp: finish_def Let_def split: if_splits)
qed

lemma positive_prices_run:
  "run evs s = Some (s', out) \<Longrightarrow> positive_prices (this s) \<Longrightarrow> positive_prices (this s')"
proof (induction evs arbitrary: s out)
  case Nil
  then show ?case by simp
next
  case (Cons e evs)
  from Cons.prems(1) obtain s1 o1 o2 where f: "fire e s = Some (s1, o1)" and r: "run evs s1 = Some (s', o2)"
    by (auto split: option.splits)
  from positive_prices_fire[OF f Cons.prems(2)] Cons.IH[OF r] show ?case by blast
qed




text \<open>
  Claim C10. Applying a result writes nothing and counts an error unless the result has
  success true and a price above 0; otherwise it stores exactly that price. Hence positive
  prices in the current-price map and the histories stay positive under every result, and
  under every run of the event loop, whatever the collectors report.
\<close>

theorem only_positive_prices_stored:
  "(\<not> (r_success r \<and> (\<exists>p. r_price r = Some p \<and> js_gt0 p)) \<longrightarrow>
        apply_result now r (a, sc, ec) = (a, sc, ec + 1))
   \<and> (\<forall>p. r_success r \<and> r_price r = Some p \<and> js_gt0 p \<longrightarrow>
        apply_result now r (a, sc, ec)
          = (updateItemData now (r_symbol r) p (r_source r) (r_verified r) a, sc + 1, ec))
   \<and> (positive_prices a \<longrightarrow> positive_prices (fst (apply_result now r (a, sc, ec))))
   \<and> (positive_prices (this s) \<and> run evs s = Some (s', out) \<longrightarrow> positive_prices (this s'))"
  using apply_result_refused[of r now a sc ec] apply_result_accepted[of r _ now a sc ec]
    positive_prices_apply_result[of a now r sc ec] positive_prices_run[of evs s s' out]
  by blast

text \<open>Success reported with price 0, with price -3 and without a price is refused.\<close>

theorem only_positive_prices_stored_witness:
  "apply_result 5 (reported (Some (Num 0))) (empty_agent, 0, 0) = (empty_agent, 0, 1)
   \<and> apply_result 5 (reported (Some (Num (- 3)))) (empty_agent, 0, 0) = (empty_agent, 0, 1)
   \<and> apply_result 5 (reported None) (empty_agent, 0, 0) = (empty_agent, 0, 1)
   \<and> apply_result 5 (reported (Some (Num 7))) (empty_agent, 0, 0)
       = (updateItemData 5 ''BTC'' (Num 7) (Some ''CoinGecko'') False empty_agent, 1, 0)
   \<and> positive_prices empty_agent
   \<and> positive_prices (fst (apply_result 5 (reported (Some (Num 7))) (empty_agent, 0, 0)))
   \<and> (case run mixed_events (idle empty_agent) of
         None \<Rightarrow> False
       | Some (s, out) \<Rightarrow> positive_prices (this s))"
proof -
  have r: "r_success (reported p)" "r_price (reported p) = p" for p
    by (simp_all add: reported_def)
  have 1: "apply_result 5 (reported (Some (Num 0))) (empty_agent, 0, 0) = (empty_agent, 0, 1)"
    using only_positive_prices_stored[of "reported (Some (Num 0))" 5 empty_agent 0 0]
    by (simp add: r del: apply_result.simps)
  have 2: "apply_result 5 (reported (Some (Num (- 3)))) (empty_agent, 0, 0) = (empty_agent, 0, 1)"
    using only_positive_prices_stored[of "reported (Some (Num (- 3)))" 5 empty_agent 0 0]
    by (simp add: r del: apply_result.simps)
  have 3: "apply_result 5 (reported None) (empty_agent, 0, 0) = (empty_agent, 0, 1)"
    using only_positive_prices_stored[of "reported None" 5 empty_agent 0 0]
    by (simp add: r del: apply_result.simps)
  have g: "r_success (reported (Some (Num 7))) \<and> r_price (reported (Some (Num 7))) = Some (Num 7)
      \<and> js_gt0 (Num 7)"
    by (simp add: r)
  have 5: "apply_result 5 (reported (Some (Num 7))) (empty_agent, 0, 0)
       = (updateItemData 5 ''BTC'' (Num 7) (Some ''CoinGecko'') False empty_agent, 1, 0)"
    using only_positive_prices_stored[of "reported (Some (Num 7))" 5 empty_agent 0 0,
        THEN conjunct2, THEN conjunct1, rule_format, OF g]
    by (simp add: reported_def del: apply_result.simps)
  have e: "positive_prices empty_agent" by (simp add: positive_prices_def empty_agent_def)
  have 4: "positive_prices (fst (apply_result 5 (reported (Some (Num 7))) (empty_agent, 0, 0)))"
    using only_positive_prices_stored[of "reported (Some (Num 7))" 5 empty_agent 0 0] e
    by blast
  have i: "positive_prices (this (idle empty_agent))" using e by (simp add: idle_def)
  have "run mixed_events (idle empty_agent) \<noteq> None"
    by (simp add: mixed_events_def idle_def updateAllPrices_enter_def collectors_def empty_agent_def)
  then obtain s out where ru: "run mixed_events (idle empty_agent) = Some (s, out)" by auto
  then have "positive_prices (this s)"
    using only_positive_prices_stored[of _ _ _ _ _ "idle empty_agent" mixed_events s out] i
    by blast
  with ru 1 2 3 5 e 4 show ?thesis by simp
qed


section \<open>The cycle as a whole\<close>

lemma history_of_isUpdating [simp]: "history_of (a\<lparr>isUpdating := b\<rparr>) sy = history_of a sy"
  by (simp add: history_of_def)


lemma isUpdating_updateItemData [simp]:
  "isUpdating (updateItemData t sy p src v a) = isUpdating a"
  by (simp add: updateItemData_def Let_def)



lemma apply_results_Cons:
  "apply_results ((now, r) # rs) st = apply_results rs (apply_result now r st)"
  by (simp add: apply_results_def)











lemma isUpdating_apply_result:
  "isUpdating (fst (apply_result now r st)) = isUpdating (fst st)"
  by (cases st) (simp split: option.splits)

lemma isUpdating_apply_results_fst:
  "isUpdating (fst (apply_results rs st)) = isUpdating (fst st)"
proof (induction rs arbitrary: st)
  case Nil show ?case by (simp add: apply_results_def)
next
  case (Cons x rs)
  obtain now r where x: "x = (now, r)" by (cases x)
  show ?case unfolding x apply_results_Cons Cons.IH isUpdating_apply_result ..
qed




subsection \<open>Faults of collectors\<close>



subsection \<open>One cycle at a time\<close>

lemma isUpdating_settle_collector:
  "isUpdating (fst (settle_collector out st)) = isUpdating (fst st)"
proof (cases out)
  case (Resolved rs)
  then show ?thesis
    by (simp add: settle_collector_results isUpdating_apply_results_fst del: settle_collector.simps)
next
  case Rejected
  then show ?thesis by (cases st) simp
qed

lemma isUpdating_settle: "isUpdating (this (settle i c out s)) = isUpdating (this s)"
  by (simp add: this_settle isUpdating_settle_collector)

lemma cycles_settle: "length (cycles (settle i c out s)) = length (cycles s)"
  by (simp add: settle_def Let_def split: prod.splits)

lemma single_flight_fire:
  assumes "single_flight s" "fire e s = Some (s', out)"
  shows "single_flight s'"
proof (cases e)
  case (Trigger t)
  then show ?thesis using assms
    by (cases t) (auto simp: single_flight_def post_update_def updateAllPrices_enter_def split: if_splits)
next
  case (Settle i c out)
  then have "s' = settle i c out s" using assms(2) by (auto split: if_splits)
  then show ?thesis using assms(1)
    using cycles_settle[of i c out s] isUpdating_settle[of i c out s]
    by (auto simp: single_flight_def)
next
  case (Finish i)
  then show ?thesis using assms
    by (auto simp: single_flight_def finish_def Let_def split: if_splits)
qed

lemma single_flight_run:
  "run evs s = Some (s', out) \<Longrightarrow> single_flight s \<Longrightarrow> single_flight s'"
proof (induction evs arbitrary: s out)
  case Nil
  then show ?case by simp
next
  case (Cons e evs)
  from Cons.prems(1) obtain s1 o1 o2 where f: "fire e s = Some (s1, o1)" and r: "run evs s1 = Some (s', o2)"
    by (auto split: option.splits)
  from single_flight_fire[OF Cons.prems(2) f] Cons.IH[OF r] show ?case by blast
qed

lemma single_flight_idle: "single_flight (idle a)"
  by (simp add: single_flight_def idle_def)

lemma flag_cleared_by_finish:
  assumes "fire e s = Some (s', out)" "isUpdating (this s)" "\<not> isUpdating (this s')"
  shows "\<exists>i. e = Finish i \<and> i < length (cycles s) \<and> pending (cycles s ! i) = []"
proof (cases e)
  case (Trigger t)
  then show ?thesis using assms
    by (cases t) (auto simp: post_update_def updateAllPrices_enter_def split: if_splits)
next
  case (Settle i c out)
  then have "s' = settle i c out s" using assms(1) by (auto split: if_splits)
  then show ?thesis using assms(2,3) by (simp add: isUpdating_settle)
next
  case (Finish i)
  then show ?thesis using assms(1) by (auto split: if_splits)
qed

lemma rejected_manual: "isUpdating (this s) \<Longrightarrow> fire (Trigger Manual) s = Some (s, [Http 429])"
  by (simp add: post_update_def)

lemma skipped_scheduled:
  "isUpdating (this s) \<Longrightarrow> fire (Trigger Scheduled) s = Some (s, [Warn_skipping])"
  by (simp add: updateAllPrices_enter_def)

text \<open>
  Claim C3 as stated fails for the scheduled trigger: with a cycle in flight
  \<open>updateAllPrices\<close> logs a warning and returns as it does after a completed cycle; only the
  handler of the manual trigger answers 429.
\<close>

theorem scheduled_trigger_not_signalled_counterexample:
  "isUpdating (this busy_system)
   \<and> fire (Trigger Scheduled) busy_system = Some (busy_system, [Warn_skipping])
   \<and> fire (Trigger Scheduled) busy_system \<noteq> Some (busy_system, [Http 429])"
  by (simp add: busy_system_def updateAllPrices_enter_def idle_def)

text \<open>
  Claim C3, amended. With a cycle in flight a manual trigger is answered with status 429 and
  a scheduled trigger is skipped with a warning, both leaving the whole state, the running
  cycle included, as it is; in every state reachable from an idle agent at most one cycle is
  running and the flag is set exactly while one is; the flag is cleared only by the end of a
  cycle none of whose collectors is pending.
\<close>

theorem single_flight_updates:
  "(isUpdating (this s) \<longrightarrow> fire (Trigger Manual) s = Some (s, [Http 429]))
   \<and> (isUpdating (this s) \<longrightarrow> fire (Trigger Scheduled) s = Some (s, [Warn_skipping]))
   \<and> (run evs (idle a) = Some (s', out) \<longrightarrow>
         length (cycles s') \<le> 1 \<and> (isUpdating (this s') = (cycles s' \<noteq> [])))
   \<and> (fire e s = Some (s'', out') \<and> isUpdating (this s) \<and> \<not> isUpdating (this s'') \<longrightarrow>
         (\<exists>i. e = Finish i \<and> i < length (cycles s) \<and> pending (cycles s ! i) = []))"
  using rejected_manual[of s] skipped_scheduled[of s]
    single_flight_run[of evs "idle a" s' out, OF _ single_flight_idle]
    flag_cleared_by_finish[of e s s'' out']
  unfolding single_flight_def by blast

text \<open>Three triggers in a row start one cycle; the second and third are turned away.\<close>

theorem single_flight_updates_witness:
  "isUpdating (this busy_system)
   \<and> fire (Trigger Manual) busy_system = Some (busy_system, [Http 429])
   \<and> fire (Trigger Scheduled) busy_system = Some (busy_system, [Warn_skipping])
   \<and> map_option (\<lambda>(s, out). (length (cycles s), isUpdating (this s), out))
        (run [Trigger Manual, Trigger Scheduled, Trigger Manual] (idle empty_agent))
       = Some (1, True, [Warn_skipping, Http 429])
   \<and> isUpdating (this draining_system)
   \<and> map_option (\<lambda>(s, out). isUpdating (this s)) (fire (Finish 0) draining_system) = Some False
   \<and> pending (cycles draining_system ! 0) = []"
proof -
  have b: "isUpdating (this busy_system)"
    by (simp add: busy_system_def updateAllPrices_enter_def idle_def)
  have 1: "fire (Trigger Manual) busy_system = Some (busy_system, [Http 429])"
    and 2: "fire (Trigger Scheduled) busy_system = Some (busy_system, [Warn_skipping])"
    using single_flight_updates[of busy_system] b by blast+
  have "run [Trigger Manual, Trigger Scheduled, Trigger Manual] (idle empty_agent) \<noteq> None"
    by (simp add: post_update_def updateAllPrices_enter_def idle_def)
  then obtain s out where r: "run [Trigger Manual, Trigger Scheduled, Trigger Manual] (idle empty_agent) = Some (s, out)"
    by auto
  then have inv: "length (cycles s) \<le> 1" "isUpdating (this s) = (cycles s \<noteq> [])"
    using single_flight_updates[of _ "[Trigger Manual, Trigger Scheduled, Trigger Manual]" empty_agent s out]
    by blast+
  have o: "out = [Warn_skipping, Http 429]" "cycles s \<noteq> []"
    using r by (auto simp: post_update_def updateAllPrices_enter_def idle_def split: if_splits)
  with inv have 3: "length (cycles s) = 1" "isUpdating (this s)"
    by (cases "cycles s"; simp)+
  have d: "isUpdating (this draining_system)" by (simp add: draining_system_def)
  obtain s2 o2 where f: "fire (Finish 0) draining_system = Some (s2, o2)" "\<not> isUpdating (this s2)"
    by (simp add: draining_system_def finish_def)
  then obtain i where "Finish 0 = Finish i" "pending (cycles draining_system ! i) = []"
    using single_flight_updates[of draining_system _ _ _ _ "Finish 0" s2 o2] d by blast
  then have 4: "pending (cycles draining_system ! 0) = []" by simp
  from b 1 2 r o 3 d f 4 show ?thesis by simp
qed

section \<open>Collectors without observations, and what reaches the consolidation\<close>

lemma push_if_truthy_falsy: "\<not> truthy out \<Longrightarrow> push_if_truthy name w out sources = sources"
  by (cases out) simp_all

lemma not_truthy: "\<not> positive out \<Longrightarrow> \<not> negative out \<Longrightarrow> \<not> truthy out"
  by (cases out) auto

lemma push_if_truthy_price:
  "\<not> positive out \<Longrightarrow> \<forall>s \<in> set sources. price s \<le> 0
     \<Longrightarrow> \<forall>s \<in> set (push_if_truthy name w out sources). price s \<le> 0"
  by (cases out) auto

lemma snd_consolidate_sources: "snd (consolidate_sources fp thr symbol sources) = Some sources"
  by (simp add: consolidate_sources_def split: sum.splits prod.splits)

lemma crypto_sources_silent:
  assumes "\<not> positive (coinGecko f)" "\<not> positive (binance f)"
    "\<not> (cmcKey f \<and> positive (coinMarketCap f))"
    and "\<not> negative (coinGecko f)" "\<not> negative (binance f)"
    "\<not> (cmcKey f \<and> negative (coinMarketCap f))"
  shows "crypto_sources f = []"
proof -
  have "\<not> truthy (coinGecko f)" "\<not> truthy (binance f)"
    using assms by (simp_all add: not_truthy)
  moreover have "\<not> truthy (coinMarketCap f)" if "cmcKey f"
    using that assms by (simp add: not_truthy)
  ultimately show ?thesis
    by (auto simp: crypto_sources_def Let_def push_if_truthy_falsy)
qed

lemma realestate_no_valid:
  "\<forall>s \<in> set (realestate_sources symbol g). price s \<le> 0 \<Longrightarrow>
     collectRealEstatePrice fp symbol g
       = (failure_result symbol ''No valid sources available'', None)"
proof -
  assume "\<forall>s \<in> set (realestate_sources symbol g). price s \<le> 0"
  then have "filter (\<lambda>s. 0 < price s) (realestate_sources symbol g) = []"
    by (auto simp: filter_empty_conv)
  then show ?thesis by (simp add: collectRealEstatePrice_def)
qed

lemma us_housing_no_valid:
  assumes "\<not> (fredKey g \<and> positive (fred g))" "\<not> positive (zillow g)"
    "\<not> positive (redfin g)" "\<not> positive (nar g)"
  shows "\<forall>s \<in> set (collectUSHousingPrices g). price s \<le> 0"
proof -
  have 1: "\<forall>s \<in> set (if fredKey g then push_if_truthy ''FRED'' d0_95 (fred g) [] else []).
             price s \<le> 0"
    using assms(1) push_if_truthy_price[of "fred g" "[]" "''FRED''" d0_95] by auto
  note 2 = push_if_truthy_price[OF assms(2) 1, of "''Zillow Research''" d0_9]
  note 3 = push_if_truthy_price[OF assms(3) 2, of "''Redfin''" d0_88]
  note 4 = push_if_truthy_price[OF assms(4) 3, of "''NAR''" d0_92]
  then show ?thesis by (simp add: collectUSHousingPrices_def Let_def)
qed

lemma canada_housing_no_valid:
  assumes "\<not> positive (statCan g)" "\<not> positive (crea g)"
  shows "\<forall>s \<in> set (collectCanadaHousingPrices g). price s \<le> 0"
proof -
  have 1: "\<forall>s \<in> set (push_if_truthy ''Statistics Canada'' d0_95 (statCan g) []). price s \<le> 0"
    using push_if_truthy_price[OF assms(1), of "[]"] by simp
  note 2 = push_if_truthy_price[OF assms(2) 1, of "''CREA''" d0_9]
  then show ?thesis by (simp add: collectCanadaHousingPrices_def Let_def)
qed

lemma nyc_no_valid:
  assumes "\<not> positive (nycOpenData g)" "\<not> positive (streetEasy g)"
  shows "\<forall>s \<in> set (collectNYCPricesPerSqft g). price s \<le> 0"
proof -
  have 1: "\<forall>s \<in> set (push_if_truthy ''NYC Open Data'' d0_92 (nycOpenData g) []). price s \<le> 0"
    using push_if_truthy_price[OF assms(1), of "[]"] by simp
  note 2 = push_if_truthy_price[OF assms(2) 1, of "''StreetEasy''" d0_88]
  then show ?thesis by (simp add: collectNYCPricesPerSqft_def Let_def)
qed

text \<open>
  Claim C6 as stated fails in the wording of the failure: the crypto collector reports
  \<open>No sources available\<close> and the real-estate collector \<open>No valid sources available\<close>, in
  the field \<open>error\<close>.
\<close>

theorem no_sources_message_counterexample:
  "r_success (fst (collectCryptoPrice unrounded ''BTC'' silent_crypto)) = False
   \<and> r_error (fst (collectCryptoPrice unrounded ''BTC'' silent_crypto))
       = Some ''No sources available''
   \<and> r_error (fst (collectCryptoPrice unrounded ''BTC'' silent_crypto))
       \<noteq> Some ''no valid sources''
   \<and> r_error (fst (collectRealEstatePrice unrounded ''HOUSE-US'' silent_realestate))
       = Some ''No valid sources available''
   \<and> r_error (fst (collectRealEstatePrice unrounded ''HOUSE-US'' silent_realestate))
       \<noteq> Some ''no valid sources''"
  by (simp add: collectCryptoPrice_def crypto_sources_def silent_crypto_def failure_result_def
        collectRealEstatePrice_def realestate_sources_def collectUSHousingPrices_def
        silent_realestate_def Let_def)

text \<open>
  Claim C6, amended. When the adapters of a symbol yield no valid observation, none of their
  outputs being a price above 0, the collector returns a failure object for the symbol
  with success false, price and source null and verified false, whose field \<open>error\<close> reads
  \<open>No sources available\<close> in the crypto collector and \<open>No valid sources available\<close> in the
  real-estate collector; the consolidation is not called; and no exception escapes, the
  collector being a total function into results. For the crypto collector this is stated
  of feeds without a negative price, of which nothing is said here.
\<close>

theorem no_sources_structured_failure:
  "(\<not> positive (coinGecko f) \<and> \<not> positive (binance f)
      \<and> \<not> (cmcKey f \<and> positive (coinMarketCap f))
      \<and> \<not> negative (coinGecko f) \<and> \<not> negative (binance f)
      \<and> \<not> (cmcKey f \<and> negative (coinMarketCap f)) \<longrightarrow>
      collectCryptoPrice fp symbol f
        = (\<lparr>r_symbol = symbol, r_success = False, r_error = Some ''No sources available'',
             r_price = None, r_source = None, r_verified = False, r_sources = None,
             r_variance = None\<rparr>, None))
   \<and> (\<not> (fredKey g \<and> positive (fred g)) \<and> \<not> positive (zillow g) \<and> \<not> positive (redfin g)
      \<and> \<not> positive (nar g) \<longrightarrow>
      collectRealEstatePrice fp ''HOUSE-US'' g
        = (\<lparr>r_symbol = ''HOUSE-US'', r_success = False,
             r_error = Some ''No valid sources available'', r_price = None, r_source = None,
             r_verified = False, r_sources = None, r_variance = None\<rparr>, None))
   \<and> (\<not> positive (statCan g) \<and> \<not> positive (crea g) \<longrightarrow>
      collectRealEstatePrice fp ''HOUSE-CA'' g
        = (\<lparr>r_symbol = ''HOUSE-CA'', r_success = False,
             r_error = Some ''No valid sources available'', r_price = None, r_source = None,
             r_verified = False, r_sources = None, r_variance = None\<rparr>, None))
   \<and> (\<not> positive (nycOpenData g) \<and> \<not> positive (streetEasy g) \<longrightarrow>
      collectRealEstatePrice fp ''NYC-SQFT'' g
        = (\<lparr>r_symbol = ''NYC-SQFT'', r_success = False,
             r_error = Some ''No valid sources available'', r_price = None, r_source = None,
             r_verified = False, r_sources = None, r_variance = None\<rparr>, None))"
proof -
  have 1: "collectCryptoPrice fp symbol f
        = (\<lparr>r_symbol = symbol, r_success = False, r_error = Some ''No sources available'',
             r_price = None, r_source = None, r_verified = False, r_sources = None,
             r_variance = None\<rparr>, None)"
    if "\<not> positive (coinGecko f)" "\<not> positive (binance f)"
      "\<not> (cmcKey f \<and> positive (coinMarketCap f))"
      "\<not> negative (coinGecko f)" "\<not> negative (binance f)"
      "\<not> (cmcKey f \<and> negative (coinMarketCap f))"
    using crypto_sources_silent[OF that] by (simp add: collectCryptoPrice_def failure_result_def)
  have 2: "collectRealEstatePrice fp ''HOUSE-US'' g
        = (\<lparr>r_symbol = ''HOUSE-US'', r_success = False,
             r_error = Some ''No valid sources available'', r_price = None, r_source = None,
             r_verified = False, r_sources = None, r_variance = None\<rparr>, None)"
    if "\<not> (fredKey g \<and> positive (fred g))" "\<not> positive (zillow g)" "\<not> positive (redfin g)"
      "\<not> positive (nar g)"
    using realestate_no_valid[of "''HOUSE-US''" g fp] us_housing_no_valid[OF that]
    by (simp add: realestate_sources_def failure_result_def)
  have 3: "collectRealEstatePrice fp ''HOUSE-CA'' g
        = (\<lparr>r_symbol = ''HOUSE-CA'', r_success = False,
             r_error = Some ''No valid sources available'', r_price = None, r_source = None,
             r_verified = False, r_sources = None, r_variance = None\<rparr>, None)"
    if "\<not> positive (statCan g)" "\<not> positive (crea g)"
    using realestate_no_valid[of "''HOUSE-CA''" g fp] canada_housing_no_valid[OF that]
    by (simp add: realestate_sources_def failure_result_def)
  have 4: "collectRealEstatePrice fp ''NYC-SQFT'' g
        = (\<lparr>r_symbol = ''NYC-SQFT'', r_success = False,
             r_error = Some ''No valid sources available'', r_price = None, r_source = None,
             r_verified = False, r_sources = None, r_variance = None\<rparr>, None)"
    if "\<not> positive (nycOpenData g)" "\<not> positive (streetEasy g)"
    using realestate_no_valid[of "''NYC-SQFT''" g fp] nyc_no_valid[OF that]
    by (simp add: realestate_sources_def failure_result_def)
  from 1 2 3 4 show ?thesis by (intro conjI impI) (elim conjE, assumption)+
qed

text \<open>
  Crypto feeds that are absent, throw or report 0, and real-estate feeds without a price
  above 0, one of them reporting -1.
\<close>

theorem no_sources_structured_failure_witness:
  "collectCryptoPrice unrounded ''BTC'' silent_crypto
       = (\<lparr>r_symbol = ''BTC'', r_success = False, r_error = Some ''No sources available'',
            r_price = None, r_source = None, r_verified = False, r_sources = None,
            r_variance = None\<rparr>, None)
   \<and> collectRealEstatePrice unrounded ''HOUSE-US'' silent_realestate
       = (\<lparr>r_symbol = ''HOUSE-US'', r_success = False,
            r_error = Some ''No valid sources available'', r_price = None, r_source = None,
            r_verified = False, r_sources = None, r_variance = None\<rparr>, None)
   \<and> collectRealEstatePrice unrounded ''HOUSE-CA'' silent_realestate
       = (\<lparr>r_symbol = ''HOUSE-CA'', r_success = False,
            r_error = Some ''No valid sources available'', r_price = None, r_source = None,
            r_verified = False, r_sources = None, r_variance = None\<rparr>, None)
   \<and> collectRealEstatePrice unrounded ''NYC-SQFT'' silent_realestate
       = (\<lparr>r_symbol = ''NYC-SQFT'', r_success = False,
            r_error = Some ''No valid sources available'', r_price = None, r_source = None,
            r_verified = False, r_sources = None, r_variance = None\<rparr>, None)
   \<and> collectUSHousingPrices silent_realestate
       = [\<lparr>source = ''Redfin'', price = - 1, reliability = d0_88\<rparr>]"
proof -
  note th = no_sources_structured_failure[of silent_crypto unrounded "''BTC''" silent_realestate]
  have c: "\<not> positive (coinGecko silent_crypto) \<and> \<not> positive (binance silent_crypto)
      \<and> \<not> (cmcKey silent_crypto \<and> positive (coinMarketCap silent_crypto))
      \<and> \<not> negative (coinGecko silent_crypto) \<and> \<not> negative (binance silent_crypto)
      \<and> \<not> (cmcKey silent_crypto \<and> negative (coinMarketCap silent_crypto))"
    by (simp add: silent_crypto_def)
  have u: "\<not> (fredKey silent_realestate \<and> positive (fred silent_realestate))
      \<and> \<not> positive (zillow silent_realestate) \<and> \<not> positive (redfin silent_realestate)
      \<and> \<not> positive (nar silent_realestate)"
    by (simp add: silent_realestate_def)
  have k: "\<not> positive (statCan silent_realestate) \<and> \<not> positive (crea silent_realestate)"
    by (simp add: silent_realestate_def)
  have n: "\<not> positive (nycOpenData silent_realestate) \<and> \<not> positive (streetEasy silent_realestate)"
    by (simp add: silent_realestate_def)
  note 1 = th[THEN conjunct1, rule_format, OF c]
  note 2 = th[THEN conjunct2, THEN conjunct1, rule_format, OF u]
  note 3 = th[THEN conjunct2, THEN conjunct2, THEN conjunct1, rule_format, OF k]
  note 4 = th[THEN conjunct2, THEN conjunct2, THEN conjunct2, rule_format, OF n]
  have r: "collectUSHousingPrices silent_realestate
       = [\<lparr>source = ''Redfin'', price = - 1, reliability = d0_88\<rparr>]"
    by (simp add: collectUSHousingPrices_def silent_realestate_def)
  from 1 2 3 4 r show ?thesis by simp
qed

text \<open>The real-estate collector hands only positive prices to the consolidation.\<close>

lemma realestate_consolidates_positive:
  "snd (collectRealEstatePrice fp symbol g) = Some obs \<Longrightarrow> \<forall>s \<in> set obs. 0 < price s"
  by (auto simp: collectRealEstatePrice_def Let_def snd_consolidate_sources split: if_splits)

text \<open>
  Claim C7 fails in the crypto collector, which tests an adapter's output for truthiness
  only: a negative price is pushed, handed to the consolidation and reported as a success,
  whatever the arithmetic.
\<close>

theorem negative_price_reaches_consolidation:
  "collectCryptoPrice fp ''BTC'' negative_crypto
     = (\<lparr>r_symbol = ''BTC'', r_success = True, r_error = None, r_price = Some (Num (- 5)),
          r_source = Some ''CoinGecko'', r_verified = False, r_sources = Some 1,
          r_variance = Some (Num 0)\<rparr>,
        Some [\<lparr>source = ''CoinGecko'', price = - 5, reliability = d0_9\<rparr>])"
  by (simp add: collectCryptoPrice_def crypto_sources_def negative_crypto_def
        consolidate_sources_def verifyAndConsolidate_def success_result_def)

end
